theory Spec2Isabelle
  imports Main "HOL-Library.Char_ord" "HOL-Library.List_Lexorder"
begin

section \<open>Python values and keyword arguments\<close>

text \<open>
  The constructor of \<^verbatim>\<open>ColumnProperty\<close> stores whatever Python object the caller
  passes for an option, and later tests some of them for truth (\<^verbatim>\<open>if self.raiseload\<close>,
  \<^verbatim>\<open>if not self.instrument\<close>). The values an option can hold are modelled by a small
  universe of Python objects together with Python's truth test.
\<close>

datatype pyval =
    PyNone
  | PyBool bool
  | PyInt int
  | PyStr string
  | PyClass string
  | PyObj nat

fun truthy :: "pyval \<Rightarrow> bool" where
  "truthy PyNone = False"
| "truthy (PyBool b) = b"
| "truthy (PyInt i) = (i \<noteq> 0)"
| "truthy (PyStr s) = (s \<noteq> [])"
| "truthy (PyClass c) = True"
| "truthy (PyObj n) = True"

text \<open>
  \<^verbatim>\<open>**kwargs\<close> is a dict with string keys; it is modelled as an association list in
  insertion order. \<^verbatim>\<open>kwargs.pop(k, default)\<close> returns the value stored under \<open>k\<close>
  (or the default) and removes the key.
\<close>

type_synonym kwargs = "(string \<times> pyval) list"

definition kw_get :: "string \<Rightarrow> pyval \<Rightarrow> kwargs \<Rightarrow> pyval" where
  "kw_get k d kw = (case map_of kw k of Some v \<Rightarrow> v | None \<Rightarrow> d)"

definition kw_del :: "string \<Rightarrow> kwargs \<Rightarrow> kwargs" where
  "kw_del k kw = filter (\<lambda>kv. fst kv \<noteq> k) kw"

definition kw_pop :: "string \<Rightarrow> pyval \<Rightarrow> kwargs \<Rightarrow> pyval \<times> kwargs" where
  "kw_pop k d kw = (kw_get k d kw, kw_del k kw)"

definition kw_has :: "string \<Rightarrow> kwargs \<Rightarrow> bool" where
  "kw_has k kw = (k \<in> set (map fst kw))"

datatype error =
    TypeError string
  | ArgumentError string
  | AttributeError
  | IndexError

text \<open>\<^verbatim>\<open>sep.join(xs)\<close> on strings.\<close>

fun join :: "string \<Rightarrow> string list \<Rightarrow> string" where
  "join sep [] = []"
| "join sep [x] = x"
| "join sep (x # y # ys) = x @ sep @ join sep (y # ys)"

section \<open>The property object\<close>

text \<open>
  The collaborators the constructor calls but this module does not define:
  \<^verbatim>\<open>coercions.expect(roles.LabeledColumnExprRole, c)\<close>, which returns the coerced
  expression or raises; \<^verbatim>\<open>_orm_full_deannotate(c)\<close>, which returns the expression
  stripped of its annotations or raises (it is applied to the caller's raw argument, which
  need not be an expression); and \<^verbatim>\<open>getattr(col, "doc", None)\<close>. Arguments and column
  expressions are values of an arbitrary type \<open>'c\<close>.
\<close>

record 'c env =
  expect :: "'c \<Rightarrow> error + 'c"
  orm_full_deannotate :: "'c \<Rightarrow> error + 'c"
  getattr_doc :: "'c \<Rightarrow> pyval"

text \<open>The slots of \<^verbatim>\<open>ColumnProperty\<close> that \<^verbatim>\<open>__init__\<close> assigns. The \<open>info\<close> slot is
  assigned only when the option is passed.\<close>

record 'c ColumnProperty =
  orig_columns :: "'c list"
  columns :: "'c list"
  group_name :: pyval
  deferred :: pyval
  raiseload :: pyval
  instrument :: pyval
  comparator_factory :: pyval
  descriptor :: pyval
  active_history :: pyval
  expire_on_flush :: pyval
  info :: "pyval option"
  doc :: pyval
  strategy_key :: "(string \<times> pyval) list"
  creation_order :: nat

text \<open>A list comprehension \<^verbatim>\<open>[f(c) for c in columns]\<close> whose body may raise: the first
  failure aborts the whole comprehension.\<close>

fun expect_all :: "('c \<Rightarrow> error + 'c) \<Rightarrow> 'c list \<Rightarrow> error + 'c list" where
  "expect_all f [] = Inr []"
| "expect_all f (c # cs) =
     (case f c of
        Inl e \<Rightarrow> Inl e
      | Inr v \<Rightarrow> (case expect_all f cs of Inl e \<Rightarrow> Inl e | Inr vs \<Rightarrow> Inr (v # vs)))"

text \<open>
  The body of the second comprehension,
  \<^verbatim>\<open>coercions.expect(roles.LabeledColumnExprRole, _orm_full_deannotate(c))\<close>: the argument
  is de-annotated first, and an exception raised there propagates before coercion runs.
\<close>

definition deannotate_expect :: "'c env \<Rightarrow> 'c \<Rightarrow> error + 'c" where
  "deannotate_expect env =
     (\<lambda>c. case orm_full_deannotate env c of Inl e \<Rightarrow> Inl e | Inr d \<Rightarrow> expect env d)"

text \<open>
  The \<^verbatim>\<open>for col in reversed(self.columns): ... break ... else: self.doc = None\<close> loop,
  run over the list it is given (the caller passes the reversed columns).
\<close>

fun doc_scan :: "('c \<Rightarrow> pyval) \<Rightarrow> 'c list \<Rightarrow> pyval" where
  "doc_scan g [] = PyNone"
| "doc_scan g (col # cols) = (let d = g col in if d \<noteq> PyNone then d else doc_scan g cols)"

definition Comparator_class :: pyval where
  "Comparator_class = PyClass ''ColumnProperty.Comparator''"

definition unexpected_message :: "kwargs \<Rightarrow> string" where
  "unexpected_message kw =
     ''ColumnProperty'' @ '' received unexpected keyword argument(s): ''
       @ join '', '' (sort (map fst kw))"

text \<open>
  Modelled from the spec: \<^verbatim>\<open>util.set_creation_order\<close> is not among the sources; the
  specification describes a process-wide counter whose current value is stored on the
  instance and which is then incremented. The counter is threaded through explicitly.
\<close>

definition set_creation_order :: "'c ColumnProperty \<Rightarrow> nat \<Rightarrow> 'c ColumnProperty \<times> nat" where
  "set_creation_order p n = (p\<lparr>creation_order := n\<rparr>, Suc n)"

definition ColumnProperty_init ::
  "'c env \<Rightarrow> 'c list \<Rightarrow> kwargs \<Rightarrow> nat \<Rightarrow> error + ('c ColumnProperty \<times> nat)" where
  "ColumnProperty_init env cols kwargs counter =
     (case expect_all (expect env) cols of
        Inl e \<Rightarrow> Inl e
      | Inr orig \<Rightarrow>
     (case expect_all (deannotate_expect env) cols of
        Inl e \<Rightarrow> Inl e
      | Inr columns' \<Rightarrow>
        let (group', kw1) = kw_pop ''group'' PyNone kwargs;
            (deferred', kw2) = kw_pop ''deferred'' (PyBool False) kw1;
            (raiseload', kw3) = kw_pop ''raiseload'' (PyBool False) kw2;
            (instrument', kw4) = kw_pop ''_instrument'' (PyBool True) kw3;
            (comparator_factory', kw5) = kw_pop ''comparator_factory'' Comparator_class kw4;
            (descriptor', kw6) = kw_pop ''descriptor'' PyNone kw5;
            (active_history', kw7) = kw_pop ''active_history'' (PyBool False) kw6;
            (expire_on_flush', kw8) = kw_pop ''expire_on_flush'' (PyBool True) kw7;
            (info', kw9) =
               (if kw_has ''info'' kw8
                then (Some (fst (kw_pop ''info'' PyNone kw8)), snd (kw_pop ''info'' PyNone kw8))
                else (None, kw8));
            (doc', kw10) =
               (if kw_has ''doc'' kw9
                then kw_pop ''doc'' PyNone kw9
                else (doc_scan (getattr_doc env) (rev columns'), kw9))
        in if kw10 \<noteq> []
           then Inl (TypeError (unexpected_message kw10))
           else
             let p = \<lparr> orig_columns = orig, columns = columns', group_name = group',
                       deferred = deferred', raiseload = raiseload', instrument = instrument',
                       comparator_factory = comparator_factory', descriptor = descriptor',
                       active_history = active_history', expire_on_flush = expire_on_flush',
                       info = info', doc = doc', strategy_key = [], creation_order = 0 \<rparr>;
                 (p1, counter') = set_creation_order p counter;
                 p2 = p1\<lparr>strategy_key := [(''deferred'', deferred p1), (''instrument'', instrument p1)]\<rparr>;
                 p3 = (if truthy (raiseload p2)
                       then p2\<lparr>strategy_key := strategy_key p2 @ [(''raiseload'', PyBool True)]\<rparr>
                       else p2)
             in Inr (p3, counter')))"

text \<open>
  The option names \<^verbatim>\<open>__init__\<close> pops from \<^verbatim>\<open>kwargs\<close>, in the order it pops them, and
  what is left of \<^verbatim>\<open>kwargs\<close> once all of them are gone.
\<close>

definition known_options :: "string list" where
  "known_options =
     [''group'', ''deferred'', ''raiseload'', ''_instrument'', ''comparator_factory'',
      ''descriptor'', ''active_history'', ''expire_on_flush'', ''info'', ''doc'']"

definition leftover :: "kwargs \<Rightarrow> kwargs" where
  "leftover kw = filter (\<lambda>kv. fst kv \<notin> set known_options) kw"

text \<open>
  The property a successful construction yields, written in closed form. Lemma
  \<open>init_unfold\<close> below proves that the constructor computes exactly this record.
\<close>

definition options_record ::
  "'c env \<Rightarrow> 'c list \<Rightarrow> 'c list \<Rightarrow> kwargs \<Rightarrow> nat \<Rightarrow> 'c ColumnProperty" where
  "options_record env orig cs kw n =
     \<lparr> orig_columns = orig, columns = cs,
       group_name = kw_get ''group'' PyNone kw,
       deferred = kw_get ''deferred'' (PyBool False) kw,
       raiseload = kw_get ''raiseload'' (PyBool False) kw,
       instrument = kw_get ''_instrument'' (PyBool True) kw,
       comparator_factory = kw_get ''comparator_factory'' Comparator_class kw,
       descriptor = kw_get ''descriptor'' PyNone kw,
       active_history = kw_get ''active_history'' (PyBool False) kw,
       expire_on_flush = kw_get ''expire_on_flush'' (PyBool True) kw,
       info = (if kw_has ''info'' kw then Some (kw_get ''info'' PyNone kw) else None),
       doc = (if kw_has ''doc'' kw then kw_get ''doc'' PyNone kw
              else doc_scan (getattr_doc env) (rev cs)),
       strategy_key =
         [(''deferred'', kw_get ''deferred'' (PyBool False) kw),
          (''instrument'', kw_get ''_instrument'' (PyBool True) kw)]
         @ (if truthy (kw_get ''raiseload'' (PyBool False) kw)
            then [(''raiseload'', PyBool True)] else []),
       creation_order = n \<rparr>"

subsection \<open>expression\<close>

text \<open>The \<^verbatim>\<open>expression\<close> property returns \<^verbatim>\<open>self.columns[0]\<close>, which raises
  \<^verbatim>\<open>IndexError\<close> on an empty list.\<close>

definition expression :: "'c ColumnProperty \<Rightarrow> error + 'c" where
  "expression p = (case columns p of [] \<Rightarrow> Inl IndexError | c # _ \<Rightarrow> Inr c)"

subsection \<open>copy\<close>

text \<open>
  \<^verbatim>\<open>copy\<close> calls the constructor again with the stored columns as positional arguments
  and exactly three keyword arguments.
\<close>

definition copy :: "'c env \<Rightarrow> 'c ColumnProperty \<Rightarrow> nat \<Rightarrow> error + ('c ColumnProperty \<times> nat)" where
  "copy env p counter =
     ColumnProperty_init env (columns p)
       [(''deferred'', deferred p), (''group'', group_name p),
        (''active_history'', active_history p)]
       counter"

section \<open>The property attached to its mapper\<close>

text \<open>
  \<^verbatim>\<open>key\<close> and \<^verbatim>\<open>parent\<close> are assigned by the mapper after construction. Of the parent
  mapper, this module reads \<^verbatim>\<open>primary_key\<close>, \<^verbatim>\<open>_polymorphic_adapter\<close> (whose
  \<^verbatim>\<open>traverse\<close> method is the function stored here) and its string form.
\<close>

record 'c Mapper =
  primary_key :: "'c list"
  polymorphic_adapter :: "('c \<Rightarrow> 'c) option"
  mapper_str :: string

record 'c MappedProperty =
  column_property :: "'c ColumnProperty"
  key :: string
  parent :: "'c Mapper"

subsection \<open>do_init\<close>

definition pk_warning :: "string \<Rightarrow> string \<Rightarrow> string \<Rightarrow> string \<Rightarrow> string" where
  "pk_warning mapper col1 col0 k =
     ''On mapper '' @ mapper @ '', primary key column '' @ [CHR 0x27] @ col1 @ [CHR 0x27]
       @ '' is being combined with distinct primary key column '' @ [CHR 0x27] @ col0 @ [CHR 0x27]
       @ '' in attribute '' @ [CHR 0x27] @ k @ [CHR 0x27] @ ''. ''
       @ ''Use explicit properties to give each column its own mapped attribute name.''"

text \<open>
  \<^verbatim>\<open>do_init\<close> first runs the inherited \<^verbatim>\<open>do_init\<close> (a parameter: it is defined in a
  module outside this one), then tests the columns against the parent's primary key and
  calls \<^verbatim>\<open>util.warn\<close>, which appends to the log of warnings. \<open>col_str\<close> is \<^verbatim>\<open>str\<close> on a
  column. Set membership is on object identity, the equality of \<open>'c\<close>.
\<close>

definition do_init ::
  "('c MappedProperty \<Rightarrow> 'c MappedProperty) \<Rightarrow> ('c \<Rightarrow> string) \<Rightarrow> 'c MappedProperty
     \<Rightarrow> string list \<Rightarrow> 'c MappedProperty \<times> string list" where
  "do_init super_do_init col_str self warnings =
     (let self1 = super_do_init self;
          cols = columns (column_property self1)
      in if length cols > 1 \<and> list_all (\<lambda>c. c \<in> set (primary_key (parent self1))) cols
         then (self1,
               warnings @ [pk_warning (mapper_str (parent self1)) (col_str (cols ! 1))
                             (col_str (cols ! 0)) (key self1)])
         else (self1, warnings))"

subsection \<open>merge\<close>

text \<open>
  The destination side of a merge: the destination's value dict, whether the destination
  state has an identity, and the log of calls made on the destination state and its
  attribute implementations. What those calls do to the value dict is given by the
  attribute system, which is outside this module.
\<close>

datatype 'v call =
    Impl_set string 'v
  | Expire_attributes "string list" bool

record 'v dest =
  dest_dict :: "string \<rightharpoonup> 'v"
  has_identity :: bool
  calls :: "'v call list"

record 'v attribute_system =
  impl_set :: "string \<Rightarrow> (string \<rightharpoonup> 'v) \<Rightarrow> 'v \<Rightarrow> (string \<rightharpoonup> 'v)"
  expire_attributes :: "(string \<rightharpoonup> 'v) \<Rightarrow> string list \<Rightarrow> bool \<Rightarrow> (string \<rightharpoonup> 'v)"

text \<open>
  \<^verbatim>\<open>merge\<close> does not use its \<^verbatim>\<open>session\<close>, \<^verbatim>\<open>source_state\<close>, \<^verbatim>\<open>_recursive\<close> and
  \<^verbatim>\<open>_resolve_conflict_map\<close> arguments; the model leaves them out.
\<close>

definition merge ::
  "'v attribute_system \<Rightarrow> 'c MappedProperty \<Rightarrow> (string \<rightharpoonup> 'v) \<Rightarrow> 'v dest \<Rightarrow> bool \<Rightarrow> 'v dest" where
  "merge sys self source_dict d load =
     (if \<not> truthy (instrument (column_property self)) then d
      else case source_dict (key self) of
        Some val \<Rightarrow>
          if \<not> load then d\<lparr>dest_dict := (dest_dict d)(key self \<mapsto> val)\<rparr>
          else d\<lparr>dest_dict := impl_set sys (key self) (dest_dict d) val,
                 calls := calls d @ [Impl_set (key self) val]\<rparr>
      | None \<Rightarrow>
          if has_identity d \<and> dest_dict d (key self) = None
          then d\<lparr>dest_dict := expire_attributes sys (dest_dict d) [key self] True,
                 calls := calls d @ [Expire_attributes [key self] True]\<rparr>
          else d)"

section \<open>The comparator\<close>

text \<open>
  Values stored in an annotation dict: the parent entity, a string, or a column.
\<close>

datatype ('c, 'e) annval =
    Entity 'e
  | Str string
  | Column 'c

record ('c, 'e) sql_api =
  annotate :: "'c \<Rightarrow> (string \<times> ('c, 'e) annval) list \<Rightarrow> 'c"
  set_propagate_attrs :: "'c \<Rightarrow> (string \<times> ('c, 'e) annval) list \<Rightarrow> 'c"

text \<open>
  Modelled from the spec: the memoization of \<^verbatim>\<open>util.MemoizedSlots\<close> is not among the
  sources; each memoized field is computed at most once per Comparator instance. A slot
  holds \<open>None\<close> until its first access.
\<close>

record ('c, 'e) Comparator =
  cprop :: "'c MappedProperty"
  parententity :: 'e
  parentmapper :: "'c Mapper"
  adapter :: "('c \<Rightarrow> string \<Rightarrow> 'c) option"
  clause_element_slot :: "'c option"
  expressions_slot :: "'c list option"

definition orm_annotate_column :: "('c, 'e) sql_api \<Rightarrow> ('c, 'e) Comparator \<Rightarrow> 'c \<Rightarrow> 'c" where
  "orm_annotate_column api self column =
     (let pe = parententity self;
          annotations = [(''entity_namespace'', Entity pe), (''parententity'', Entity pe),
                         (''parentmapper'', Entity pe), (''orm_key'', Str (key (cprop self)))];
          (col, annotations') =
             (case polymorphic_adapter (parentmapper self) of
                Some traverse \<Rightarrow> (traverse column, annotations @ [(''adapt_column'', Column column)])
              | None \<Rightarrow> (column, annotations))
      in set_propagate_attrs api (annotate api col annotations')
           [(''compile_state_plugin'', Str ''orm''), (''plugin_subject'', Entity pe)])"

text \<open>The body of \<^verbatim>\<open>_memoized_method___clause_element__\<close>; \<^verbatim>\<open>columns[0]\<close> raises
  \<^verbatim>\<open>IndexError\<close> on an empty list.\<close>

definition compute_clause_element ::
  "('c, 'e) sql_api \<Rightarrow> ('c, 'e) Comparator \<Rightarrow> error + 'c" where
  "compute_clause_element api self =
     (case adapter self of
        Some f \<Rightarrow>
          (case columns (column_property (cprop self)) of
             [] \<Rightarrow> Inl IndexError
           | col0 # _ \<Rightarrow> Inr (f col0 (key (cprop self))))
      | None \<Rightarrow>
          (case columns (column_property (cprop self)) of
             [] \<Rightarrow> Inl IndexError
           | col0 # _ \<Rightarrow> Inr (orm_annotate_column api self col0)))"

definition clause_element ::
  "('c, 'e) sql_api \<Rightarrow> ('c, 'e) Comparator \<Rightarrow> error + ('c \<times> ('c, 'e) Comparator)" where
  "clause_element api self =
     (case clause_element_slot self of
        Some v \<Rightarrow> Inr (v, self)
      | None \<Rightarrow>
          (case compute_clause_element api self of
             Inl e \<Rightarrow> Inl e
           | Inr v \<Rightarrow> Inr (v, self\<lparr>clause_element_slot := Some v\<rparr>)))"

text \<open>The body of \<^verbatim>\<open>_memoized_attr_expressions\<close>.\<close>

definition compute_expressions :: "('c, 'e) sql_api \<Rightarrow> ('c, 'e) Comparator \<Rightarrow> 'c list" where
  "compute_expressions api self =
     (case adapter self of
        Some f \<Rightarrow> map (\<lambda>col. f col (key (cprop self))) (columns (column_property (cprop self)))
      | None \<Rightarrow> map (orm_annotate_column api self) (columns (column_property (cprop self))))"

definition expressions ::
  "('c, 'e) sql_api \<Rightarrow> ('c, 'e) Comparator \<Rightarrow> 'c list \<times> ('c, 'e) Comparator" where
  "expressions api self =
     (case expressions_slot self of
        Some v \<Rightarrow> (v, self)
      | None \<Rightarrow>
          (let v = compute_expressions api self in (v, self\<lparr>expressions_slot := Some v\<rparr>)))"

text \<open>
  A freshly built comparator, and the relation between a comparator's slots and the
  values their bodies compute: a slot is empty or holds what its body returns.
\<close>

definition new_Comparator ::
  "'c MappedProperty \<Rightarrow> 'e \<Rightarrow> 'c Mapper \<Rightarrow> ('c \<Rightarrow> string \<Rightarrow> 'c) option \<Rightarrow> ('c, 'e) Comparator" where
  "new_Comparator p pe m ad =
     \<lparr> cprop = p, parententity = pe, parentmapper = m, adapter = ad,
       clause_element_slot = None, expressions_slot = None \<rparr>"

definition slots_ok :: "('c, 'e) sql_api \<Rightarrow> ('c, 'e) Comparator \<Rightarrow> bool" where
  "slots_ok api self =
     ((case clause_element_slot self of
         None \<Rightarrow> True
       | Some v \<Rightarrow> compute_clause_element api self = Inr v)
      \<and> (case expressions_slot self of
            None \<Rightarrow> True
          | Some vs \<Rightarrow> vs = compute_expressions api self))"

section \<open>A sample expression language\<close>

text \<open>
  Modelled from the spec: the coercion and de-annotation services are not among the
  sources. This small expression language gives one concrete instance of them, used to
  evaluate the constructor on concrete inputs. Coercion returns a column and a label as
  they are, wraps any other expression in a label, turns a plain value into a labeled
  bind parameter and refuses a table. De-annotation strips the annotations of an
  expression and raises on a plain value, which has no such method.
\<close>

datatype expr =
    Col string pyval
  | Binary expr expr
  | Label expr
  | Annotated expr
  | Lit int
  | Table string

fun strip_annotations :: "expr \<Rightarrow> expr" where
  "strip_annotations (Annotated e) = strip_annotations e"
| "strip_annotations (Binary a b) = Binary (strip_annotations a) (strip_annotations b)"
| "strip_annotations (Label e) = Label (strip_annotations e)"
| "strip_annotations (Col n d) = Col n d"
| "strip_annotations (Lit i) = Lit i"
| "strip_annotations (Table n) = Table n"

fun sample_deannotate :: "expr \<Rightarrow> error + expr" where
  "sample_deannotate (Lit i) = Inl AttributeError"
| "sample_deannotate e = Inr (strip_annotations e)"

fun sample_expect :: "expr \<Rightarrow> error + expr" where
  "sample_expect (Col n d) = Inr (Col n d)"
| "sample_expect (Label e) = Inr (Label e)"
| "sample_expect (Binary a b) = Inr (Label (Binary a b))"
| "sample_expect (Annotated e) = Inr (Annotated e)"
| "sample_expect (Lit i) = Inr (Label (Lit i))"
| "sample_expect (Table n) = Inl (ArgumentError ''Column expression expected'')"

fun sample_doc :: "expr \<Rightarrow> pyval" where
  "sample_doc (Col n d) = d"
| "sample_doc (Annotated e) = sample_doc e"
| "sample_doc e = PyNone"

definition sample_env :: "expr env" where
  "sample_env =
     \<lparr> expect = sample_expect, orm_full_deannotate = sample_deannotate,
       getattr_doc = sample_doc \<rparr>"

text \<open>
  Modelled from the spec: sample instances of the attribute system (\<open>set\<close> stores the
  value, expiring removes the keys), of the annotation interface (annotating wraps the
  expression, setting the propagated attributes returns it unchanged), of an adapter
  (which labels the column) and of the inherited
  \<^verbatim>\<open>do_init\<close> (which leaves the fields of this module alone), none of which are among
  the sources; together with a mapper whose primary key has two columns.
\<close>

definition sample_attribute_system :: "int attribute_system" where
  "sample_attribute_system =
     \<lparr> impl_set = (\<lambda>k m v. m(k \<mapsto> v)),
       expire_attributes = (\<lambda>m ks no_loader. fold (\<lambda>k m'. m'(k := None)) ks m) \<rparr>"

definition sample_api :: "(expr, string) sql_api" where
  "sample_api =
     \<lparr> annotate = (\<lambda>c anns. Annotated c), set_propagate_attrs = (\<lambda>c attrs. c) \<rparr>"

definition sample_adapter :: "expr \<Rightarrow> string \<Rightarrow> expr" where
  "sample_adapter c k = Label c"

definition sample_super_do_init :: "expr MappedProperty \<Rightarrow> expr MappedProperty" where
  "sample_super_do_init self = self"

definition sample_mapper :: "expr Mapper" where
  "sample_mapper =
     \<lparr> primary_key = [Col ''id'' PyNone, Col ''version'' PyNone],
       polymorphic_adapter = None, mapper_str = ''mapped class User->users'' \<rparr>"

fun sample_col_str :: "expr \<Rightarrow> string" where
  "sample_col_str (Col n d) = n"
| "sample_col_str e = ''<expression>''"

definition sample_mapped :: "expr list \<Rightarrow> kwargs \<Rightarrow> expr MappedProperty" where
  "sample_mapped cols kw =
     \<lparr> column_property = options_record sample_env cols cols kw 0, key = ''x'',
       parent = sample_mapper \<rparr>"

section \<open>Keyword arguments and the constructor in closed form\<close>

lemma kw_get_del: "k' \<noteq> k \<Longrightarrow> kw_get k' d (kw_del k kw) = kw_get k' d kw"
  by (induction kw) (auto simp: kw_get_def kw_del_def)

lemma kw_has_del: "k' \<noteq> k \<Longrightarrow> kw_has k' (kw_del k kw) = kw_has k' kw"
  by (induction kw) (auto simp: kw_has_def kw_del_def)

lemma kw_del_absent: "\<not> kw_has k kw \<Longrightarrow> kw_del k kw = kw"
  by (induction kw) (auto simp: kw_has_def kw_del_def)

lemma kw_del_comm: "kw_del a (kw_del b kw) = kw_del b (kw_del a kw)"
  by (induction kw) (auto simp: kw_del_def)

lemma leftover_eq:
  "kw_del ''doc'' (kw_del ''info'' (kw_del ''expire_on_flush'' (kw_del ''active_history''
     (kw_del ''descriptor'' (kw_del ''comparator_factory'' (kw_del ''_instrument''
       (kw_del ''raiseload'' (kw_del ''deferred'' (kw_del ''group'' kw))))))))) = leftover kw"
  by (induction kw) (auto simp: kw_del_def leftover_def known_options_def)

lemma init_unfold:
  "ColumnProperty_init env cols kw n =
     (case expect_all (expect env) cols of
        Inl e \<Rightarrow> Inl e
      | Inr orig \<Rightarrow>
     (case expect_all (deannotate_expect env) cols of
        Inl e \<Rightarrow> Inl e
      | Inr cs \<Rightarrow>
         if leftover kw \<noteq> [] then Inl (TypeError (unexpected_message (leftover kw)))
         else Inr (options_record env orig cs kw n, Suc n)))"
proof -
  define K8 where "K8 = kw_del ''expire_on_flush'' (kw_del ''active_history''
     (kw_del ''descriptor'' (kw_del ''comparator_factory'' (kw_del ''_instrument''
       (kw_del ''raiseload'' (kw_del ''deferred'' (kw_del ''group'' kw)))))))"
  have left: "kw_del ''doc'' (kw_del ''info'' K8) = leftover kw"
    unfolding K8_def by (rule leftover_eq)
  have hi: "kw_has ''info'' K8 = kw_has ''info'' kw"
    unfolding K8_def by (simp add: kw_has_del)
  have hd: "kw_has ''doc'' K8 = kw_has ''doc'' kw"
    unfolding K8_def by (simp add: kw_has_del)
  have hd': "kw_has ''doc'' (kw_del ''info'' K8) = kw_has ''doc'' kw"
    unfolding K8_def by (simp add: kw_has_del)
  have gi: "kw_get ''info'' PyNone K8 = kw_get ''info'' PyNone kw"
    unfolding K8_def by (simp add: kw_get_del)
  have gd: "kw_get ''doc'' PyNone K8 = kw_get ''doc'' PyNone kw"
    unfolding K8_def by (simp add: kw_get_del)
  have gd': "kw_get ''doc'' PyNone (kw_del ''info'' K8) = kw_get ''doc'' PyNone kw"
    unfolding K8_def by (simp add: kw_get_del)
  have l1: "kw_del ''doc'' K8 = leftover kw" if "\<not> kw_has ''info'' kw"
    using left that hi by (simp add: kw_del_absent)
  have l2: "kw_del ''info'' K8 = leftover kw" if "\<not> kw_has ''doc'' kw"
    using left that hd' by (simp add: kw_del_absent)
  have l3: "K8 = leftover kw" if "\<not> kw_has ''doc'' kw" "\<not> kw_has ''info'' kw"
    using l2 that hi by (simp add: kw_del_absent)
  have g2: "kw_get ''deferred'' d (kw_del ''group'' kw) = kw_get ''deferred'' d kw" for d
    by (simp add: kw_get_del)
  have g3: "kw_get ''raiseload'' d (kw_del ''deferred'' (kw_del ''group'' kw)) = kw_get ''raiseload'' d kw" for d
    by (simp add: kw_get_del)
  have g4: "kw_get ''_instrument'' d (kw_del ''raiseload'' (kw_del ''deferred'' (kw_del ''group'' kw)))
      = kw_get ''_instrument'' d kw" for d
    by (simp add: kw_get_del)
  have g5: "kw_get ''comparator_factory'' d (kw_del ''_instrument'' (kw_del ''raiseload''
      (kw_del ''deferred'' (kw_del ''group'' kw)))) = kw_get ''comparator_factory'' d kw" for d
    by (simp add: kw_get_del)
  have g6: "kw_get ''descriptor'' d (kw_del ''comparator_factory'' (kw_del ''_instrument''
      (kw_del ''raiseload'' (kw_del ''deferred'' (kw_del ''group'' kw))))) = kw_get ''descriptor'' d kw" for d
    by (simp add: kw_get_del)
  have g7: "kw_get ''active_history'' d (kw_del ''descriptor'' (kw_del ''comparator_factory''
      (kw_del ''_instrument'' (kw_del ''raiseload'' (kw_del ''deferred'' (kw_del ''group'' kw))))))
      = kw_get ''active_history'' d kw" for d
    by (simp add: kw_get_del)
  have g8: "kw_get ''expire_on_flush'' d (kw_del ''active_history'' (kw_del ''descriptor''
      (kw_del ''comparator_factory'' (kw_del ''_instrument'' (kw_del ''raiseload''
      (kw_del ''deferred'' (kw_del ''group'' kw))))))) = kw_get ''expire_on_flush'' d kw" for d
    by (simp add: kw_get_del)
  have body: "(let (group', kw1) = kw_pop ''group'' PyNone kw;
            (deferred', kw2) = kw_pop ''deferred'' (PyBool False) kw1;
            (raiseload', kw3) = kw_pop ''raiseload'' (PyBool False) kw2;
            (instrument', kw4) = kw_pop ''_instrument'' (PyBool True) kw3;
            (comparator_factory', kw5) = kw_pop ''comparator_factory'' Comparator_class kw4;
            (descriptor', kw6) = kw_pop ''descriptor'' PyNone kw5;
            (active_history', kw7) = kw_pop ''active_history'' (PyBool False) kw6;
            (expire_on_flush', kw8) = kw_pop ''expire_on_flush'' (PyBool True) kw7;
            (info', kw9) =
               (if kw_has ''info'' kw8
                then (Some (fst (kw_pop ''info'' PyNone kw8)), snd (kw_pop ''info'' PyNone kw8))
                else (None, kw8));
            (doc', kw10) =
               (if kw_has ''doc'' kw9
                then kw_pop ''doc'' PyNone kw9
                else (doc_scan (getattr_doc env) (rev columns'), kw9))
        in if kw10 \<noteq> []
           then Inl (TypeError (unexpected_message kw10))
           else
             let p = \<lparr> orig_columns = orig, columns = columns', group_name = group',
                       deferred = deferred', raiseload = raiseload', instrument = instrument',
                       comparator_factory = comparator_factory', descriptor = descriptor',
                       active_history = active_history', expire_on_flush = expire_on_flush',
                       info = info', doc = doc', strategy_key = [], creation_order = 0 \<rparr>;
                 (p1, counter') = set_creation_order p n;
                 p2 = p1\<lparr>strategy_key := [(''deferred'', deferred p1), (''instrument'', instrument p1)]\<rparr>;
                 p3 = (if truthy (raiseload p2)
                       then p2\<lparr>strategy_key := strategy_key p2 @ [(''raiseload'', PyBool True)]\<rparr>
                       else p2)
             in Inr (p3, counter'))
       = (if leftover kw \<noteq> [] then Inl (TypeError (unexpected_message (leftover kw)))
         else Inr (options_record env orig columns' kw n, Suc n))" for orig columns'
    unfolding kw_pop_def Let_def case_prod_conv fst_conv snd_conv set_creation_order_def
    apply (simp only: K8_def[symmetric])
    apply (simp only: hi hd hd' if_distrib[of "case_prod f" for f] case_prod_conv fst_conv snd_conv)
    apply (cases "kw_has ''info'' kw"; cases "kw_has ''doc'' kw")
    apply (simp_all only: if_True if_False case_prod_conv hd hd' left l1 l2 l3 not_False_eq_True gi gd gd')
    apply (simp_all only: g2 g3 g4 g5 g6 g7 g8)
    apply (simp_all add: options_record_def)
    done
  show ?thesis
    by (simp only: ColumnProperty_init_def body)
qed


lemma expect_all_Inr:
  "expect_all f cs = Inr vs \<Longrightarrow> length vs = length cs \<and> (\<forall>i<length cs. f (cs ! i) = Inr (vs ! i))"
proof (induction cs arbitrary: vs)
  case Nil
  then show ?case by simp
next
  case (Cons c cs)
  from Cons.prems obtain v vs' where v: "f c = Inr v" and vs': "expect_all f cs = Inr vs'"
    and eq: "vs = v # vs'"
    by (auto split: sum.splits)
  from Cons.IH[OF vs'] have len: "length vs' = length cs"
    and nth: "\<forall>i<length cs. f (cs ! i) = Inr (vs' ! i)" by simp_all
  show ?case
  proof (intro conjI allI impI)
    show "length vs = length (c # cs)" using len eq by simp
  next
    fix i assume "i < length (c # cs)"
    then show "f ((c # cs) ! i) = Inr (vs ! i)"
      using v nth eq by (cases i) simp_all
  qed
qed

lemma expect_all_map: "(\<forall>c\<in>set cs. f c = Inr (g c)) \<Longrightarrow> expect_all f cs = Inr (map g cs)"
  by (induction cs) simp_all

lemma expect_all_succeeds:
  "(\<forall>c\<in>set cs. \<exists>v. f c = Inr v) \<Longrightarrow> \<exists>vs. expect_all f cs = Inr vs"
  by (induction cs) auto

lemma deannotate_expect_Inr:
  "deannotate_expect env c = Inr v
     \<longleftrightarrow> (\<exists>d. orm_full_deannotate env c = Inr d \<and> expect env d = Inr v)"
  by (simp add: deannotate_expect_def split: sum.splits)

lemma init_first_pass_error:
  "expect_all (expect env) cols = Inl e \<Longrightarrow> ColumnProperty_init env cols kw n = Inl e"
  unfolding init_unfold by simp

lemma init_second_pass_error:
  "expect_all (expect env) cols = Inr orig \<Longrightarrow> expect_all (deannotate_expect env) cols = Inl e
     \<Longrightarrow> ColumnProperty_init env cols kw n = Inl e"
  unfolding init_unfold by simp

lemma init_Inr:
  assumes "ColumnProperty_init env cols kw n = Inr (p, n')"
  obtains orig cs where "expect_all (expect env) cols = Inr orig"
    and "expect_all (deannotate_expect env) cols = Inr cs"
    and "leftover kw = []" and "p = options_record env orig cs kw n" and "n' = Suc n"
  using assms unfolding init_unfold by (auto split: sum.splits if_splits)

lemma kw_has_map_of: "kw_has k kw \<longleftrightarrow> map_of kw k \<noteq> None"
  by (simp add: kw_has_def map_of_eq_None_iff)

lemma kw_get_Some: "map_of kw k = Some v \<Longrightarrow> kw_get k d kw = v"
  by (simp add: kw_get_def)

lemma kw_get_None: "map_of kw k = None \<Longrightarrow> kw_get k d kw = d"
  by (simp add: kw_get_def)

lemma doc_scan_none: "(\<forall>c\<in>set cs. g c = PyNone) \<Longrightarrow> doc_scan g cs = PyNone"
  by (induction cs) simp_all

lemma doc_scan_first:
  "i < length cs \<Longrightarrow> g (cs ! i) \<noteq> PyNone \<Longrightarrow> (\<forall>j<i. g (cs ! j) = PyNone)
     \<Longrightarrow> doc_scan g cs = g (cs ! i)"
proof (induction cs arbitrary: i)
  case Nil
  then show ?case by simp
next
  case (Cons c cs)
  show ?case
  proof (cases i)
    case 0
    with Cons.prems show ?thesis by simp
  next
    case (Suc k)
    with Cons.prems have c: "g c = PyNone" by auto
    have "doc_scan g cs = g (cs ! k)"
    proof (rule Cons.IH)
      show "k < length cs" using Cons.prems Suc by simp
      show "g (cs ! k) \<noteq> PyNone" using Cons.prems Suc by simp
      show "\<forall>j<k. g (cs ! j) = PyNone"
      proof (intro allI impI)
        fix j assume "j < k"
        then have "Suc j < i" using Suc by simp
        with Cons.prems(3) have "g ((c # cs) ! Suc j) = PyNone" by blast
        then show "g (cs ! j) = PyNone" by simp
      qed
    qed
    with c Suc show ?thesis by simp
  qed
qed

lemma doc_scan_rev_last:
  assumes i: "i < length cs" and d: "g (cs ! i) \<noteq> PyNone"
    and later: "\<forall>j. i < j \<and> j < length cs \<longrightarrow> g (cs ! j) = PyNone"
  shows "doc_scan g (rev cs) = g (cs ! i)"
proof -
  let ?k = "length cs - Suc i"
  have k: "?k < length (rev cs)" using i by simp
  have at: "rev cs ! ?k = cs ! i" using i by (simp add: rev_nth)
  have before: "\<forall>j<?k. g (rev cs ! j) = PyNone"
  proof (intro allI impI)
    fix j assume j: "j < ?k"
    then have "j < length cs" by simp
    then have "rev cs ! j = cs ! (length cs - Suc j)" by (simp add: rev_nth)
    moreover have "i < length cs - Suc j \<and> length cs - Suc j < length cs" using j i by arith
    ultimately show "g (rev cs ! j) = PyNone" using later by simp
  qed
  have "doc_scan g (rev cs) = g (rev cs ! ?k)"
    using k before d at by (intro doc_scan_first) simp_all
  then show ?thesis using at by simp
qed

lemma fst_leftover: "map fst (leftover kw) = filter (\<lambda>k. k \<notin> set known_options) (map fst kw)"
  by (induction kw) (simp_all add: leftover_def)

lemma leftover_nonempty:
  "(\<exists>k\<in>set (map fst kw). k \<notin> set known_options) \<Longrightarrow> leftover kw \<noteq> []"
  by (auto simp: leftover_def filter_empty_conv)

lemma init_fails_on_leftover:
  "leftover kw \<noteq> [] \<Longrightarrow> \<exists>e. ColumnProperty_init env cols kw n = Inl e"
  unfolding init_unfold by (simp split: sum.splits)

lemma init_leftover_message:
  "leftover kw \<noteq> [] \<Longrightarrow> expect_all (expect env) cols = Inr orig
    \<Longrightarrow> expect_all (deannotate_expect env) cols = Inr cs
    \<Longrightarrow> ColumnProperty_init env cols kw n = Inl (TypeError (unexpected_message (leftover kw)))"
  unfolding init_unfold by simp

lemma sample_deannotate_expect:
  "deannotate_expect sample_env
     = (\<lambda>c. case sample_deannotate c of Inl e \<Rightarrow> Inl e | Inr d \<Rightarrow> sample_expect d)"
  by (rule ext) (simp add: deannotate_expect_def sample_env_def split: sum.splits)

lemma sample_expect_env: "expect sample_env = sample_expect"
  by (simp add: sample_env_def)

lemma sample_init:
  assumes "expect_all sample_expect cols = Inr orig"
    and "expect_all (\<lambda>c. case sample_deannotate c of Inl e \<Rightarrow> Inl e | Inr d \<Rightarrow> sample_expect d)
           cols = Inr cs"
    and "leftover kw = []"
  shows "ColumnProperty_init sample_env cols kw n
           = Inr (options_record sample_env orig cs kw n, Suc n)"
  using assms by (simp add: init_unfold sample_deannotate_expect sample_expect_env)

lemma leftover_Nil: "leftover [] = []"
  by (simp add: leftover_def)


lemma sample_mapped_simps:
  "key (sample_mapped cols kw) = ''x''"
  "instrument (column_property (sample_mapped cols kw)) = kw_get ''_instrument'' (PyBool True) kw"
  "columns (column_property (sample_mapped cols kw)) = cols"
  "parent (sample_mapped cols kw) = sample_mapper"
  by (simp_all add: sample_mapped_def options_record_def)

lemma annotate_slot_independent:
  "orm_annotate_column api (self\<lparr>clause_element_slot := x\<rparr>) = orm_annotate_column api self"
  "orm_annotate_column api (self\<lparr>expressions_slot := y\<rparr>) = orm_annotate_column api self"
  by (simp_all add: orm_annotate_column_def fun_eq_iff)

lemma compute_slot_independent:
  "compute_clause_element api (self\<lparr>clause_element_slot := x\<rparr>) = compute_clause_element api self"
  "compute_clause_element api (self\<lparr>expressions_slot := y\<rparr>) = compute_clause_element api self"
  "compute_expressions api (self\<lparr>clause_element_slot := x\<rparr>) = compute_expressions api self"
  "compute_expressions api (self\<lparr>expressions_slot := y\<rparr>) = compute_expressions api self"
  by (simp_all add: compute_clause_element_def compute_expressions_def annotate_slot_independent
      split: option.splits list.splits)

lemma slots_ok_new: "slots_ok api (new_Comparator p pe m ad)"
  by (simp add: slots_ok_def new_Comparator_def)

lemma clause_element_value:
  assumes "slots_ok api self" and "compute_clause_element api self = Inr v"
  shows "\<exists>self'. clause_element api self = Inr (v, self') \<and> slots_ok api self'
           \<and> clause_element api self' = Inr (v, self')"
proof (cases "clause_element_slot self")
  case None
  let ?s = "self\<lparr>clause_element_slot := Some v\<rparr>"
  have r: "clause_element api self = Inr (v, ?s)"
    using None assms(2) by (simp add: clause_element_def)
  have ok: "slots_ok api ?s"
    using assms by (simp add: slots_ok_def compute_slot_independent cong: option.case_cong)
  have again: "clause_element api ?s = Inr (v, ?s)"
    by (simp add: clause_element_def)
  show ?thesis using r ok again by blast
next
  case (Some w)
  with assms have "w = v" by (simp add: slots_ok_def)
  with Some have "clause_element api self = Inr (v, self)"
    by (simp add: clause_element_def)
  with assms(1) show ?thesis by blast
qed

lemma expressions_value:
  assumes "slots_ok api self"
  shows "fst (expressions api self) = compute_expressions api self
       \<and> slots_ok api (snd (expressions api self))"
proof (cases "expressions_slot self")
  case None
  then show ?thesis
    using assms by (simp add: expressions_def Let_def slots_ok_def compute_slot_independent
        cong: option.case_cong)
next
  case (Some vs)
  then show ?thesis
    using assms by (simp add: expressions_def slots_ok_def)
qed

lemma leftover_copy_kwargs:
  "leftover [(''deferred'', a), (''group'', b), (''active_history'', c)] = []"
  by (simp add: leftover_def known_options_def)

lemma copy_options:
  "options_record env orig cs [(''deferred'', a), (''group'', b), (''active_history'', c)] n
     = \<lparr> orig_columns = orig, columns = cs, group_name = b, deferred = a,
         raiseload = PyBool False, instrument = PyBool True,
         comparator_factory = Comparator_class, descriptor = PyNone, active_history = c,
         expire_on_flush = PyBool True, info = None,
         doc = doc_scan (getattr_doc env) (rev cs),
         strategy_key = [(''deferred'', a), (''instrument'', PyBool True)],
         creation_order = n \<rparr>"
  by (simp add: options_record_def kw_get_def kw_has_def)


section \<open>Claims about the constructor\<close>

text \<open>
  Claim C3. For every successful construction, \<open>strategy_key\<close> is the ordered tuple of
  \<open>("deferred", deferred)\<close> and \<open>("instrument", instrument)\<close>, followed by the one entry
  \<open>("raiseload", True)\<close> exactly when \<open>raiseload\<close> is true; for \<open>deferred = False\<close>,
  \<open>instrument = True\<close>, \<open>raiseload = False\<close> it is
  \<open>(("deferred", False), ("instrument", True))\<close>.
\<close>

theorem strategy_key_tuple:
  assumes "ColumnProperty_init env cols kw n = Inr (p, n')"
  shows "strategy_key p =
           [(''deferred'', deferred p), (''instrument'', instrument p)]
           @ (if truthy (raiseload p) then [(''raiseload'', PyBool True)] else [])
         \<and> (deferred p = PyBool False \<and> instrument p = PyBool True \<and> raiseload p = PyBool False
              \<longrightarrow> strategy_key p = [(''deferred'', PyBool False), (''instrument'', PyBool True)])"
proof -
  from assms obtain orig cs where p: "p = options_record env orig cs kw n"
    by (rule init_Inr)
  show ?thesis unfolding p options_record_def by simp
qed

theorem strategy_key_tuple_witness:
  "ColumnProperty_init sample_env [Col ''id'' PyNone] [(''raiseload'', PyBool True)] 7
     = Inr (options_record sample_env [Col ''id'' PyNone] [Col ''id'' PyNone]
              [(''raiseload'', PyBool True)] 7, 8)
   \<and> strategy_key (options_record sample_env [Col ''id'' PyNone] [Col ''id'' PyNone]
                      [(''raiseload'', PyBool True)] 7)
       = [(''deferred'', PyBool False), (''instrument'', PyBool True), (''raiseload'', PyBool True)]
   \<and> ColumnProperty_init sample_env [Col ''id'' PyNone] [] 7
       = Inr (options_record sample_env [Col ''id'' PyNone] [Col ''id'' PyNone] [] 7, 8)
   \<and> strategy_key (options_record sample_env [Col ''id'' PyNone] [Col ''id'' PyNone] [] 7)
       = [(''deferred'', PyBool False), (''instrument'', PyBool True)]"
proof -
  have a: "ColumnProperty_init sample_env [Col ''id'' PyNone] [(''raiseload'', PyBool True)] 7
     = Inr (options_record sample_env [Col ''id'' PyNone] [Col ''id'' PyNone]
              [(''raiseload'', PyBool True)] 7, 8)"
    by (simp add: sample_init leftover_def known_options_def)
  have b: "ColumnProperty_init sample_env [Col ''id'' PyNone] [] 7
       = Inr (options_record sample_env [Col ''id'' PyNone] [Col ''id'' PyNone] [] 7, 8)"
    by (simp add: sample_init leftover_def known_options_def)
  show ?thesis
    using strategy_key_tuple[OF a] strategy_key_tuple[OF b] a b
    by (simp add: options_record_def kw_get_def)
qed

text \<open>
  Claim C4, as amended. The claim as stated (every construction with an unrecognized
  option fails with the \<open>TypeError\<close> that lists the unrecognized keys) fails when a column
  argument is refused by coercion or makes de-annotation raise: both comprehensions run
  before the keyword check, and the exception raised there is the one that propagates.
  What holds: a construction with at least one unrecognized option always fails and
  yields no property; an exception of either comprehension propagates as it is; and when
  every column argument passes coercion, de-annotation and the coercion of its
  de-annotated form, the error is the \<open>TypeError\<close> whose message lists every unrecognized
  key, sorted ascending, in one message.
\<close>

theorem unexpected_keywords_rejected:
  assumes "\<exists>k\<in>set (map fst kw). k \<notin> set known_options"
  shows "(\<exists>e. ColumnProperty_init env cols kw n = Inl e)
       \<and> (\<forall>e. expect_all (expect env) cols = Inl e
              \<longrightarrow> ColumnProperty_init env cols kw n = Inl e)
       \<and> (\<forall>orig e. expect_all (expect env) cols = Inr orig
                \<and> expect_all (deannotate_expect env) cols = Inl e
              \<longrightarrow> ColumnProperty_init env cols kw n = Inl e)
       \<and> ((\<forall>c\<in>set cols. (\<exists>v. expect env c = Inr v)
                \<and> (\<exists>d v. orm_full_deannotate env c = Inr d \<and> expect env d = Inr v))
          \<longrightarrow> ColumnProperty_init env cols kw n
                = Inl (TypeError (''ColumnProperty received unexpected keyword argument(s): ''
                    @ join '', '' (sort (filter (\<lambda>k. k \<notin> set known_options) (map fst kw))))))
       \<and> sorted (sort (filter (\<lambda>k. k \<notin> set known_options) (map fst kw)))
       \<and> set (sort (filter (\<lambda>k. k \<notin> set known_options) (map fst kw)))
           = {k \<in> set (map fst kw). k \<notin> set known_options}"
proof -
  have ne: "leftover kw \<noteq> []" using assms by (rule leftover_nonempty)
  have fails: "\<exists>e. ColumnProperty_init env cols kw n = Inl e"
    using ne by (rule init_fails_on_leftover)
  have first: "ColumnProperty_init env cols kw n = Inl e"
    if "expect_all (expect env) cols = Inl e" for e
    using that by (rule init_first_pass_error)
  have second: "ColumnProperty_init env cols kw n = Inl e"
    if "expect_all (expect env) cols = Inr orig \<and> expect_all (deannotate_expect env) cols = Inl e"
    for orig e
    using that init_second_pass_error by blast
  have msg: "unexpected_message (leftover kw)
      = ''ColumnProperty received unexpected keyword argument(s): ''
          @ join '', '' (sort (filter (\<lambda>k. k \<notin> set known_options) (map fst kw)))"
    by (simp add: unexpected_message_def fst_leftover)
  have typeerr: "ColumnProperty_init env cols kw n
                = Inl (TypeError (''ColumnProperty received unexpected keyword argument(s): ''
                    @ join '', '' (sort (filter (\<lambda>k. k \<notin> set known_options) (map fst kw)))))"
    if ok: "\<forall>c\<in>set cols. (\<exists>v. expect env c = Inr v)
                \<and> (\<exists>d v. orm_full_deannotate env c = Inr d \<and> expect env d = Inr v)"
  proof -
    from ok have "\<forall>c\<in>set cols. \<exists>v. expect env c = Inr v" by blast
    then obtain orig where o: "expect_all (expect env) cols = Inr orig"
      using expect_all_succeeds by blast
    from ok have "\<forall>c\<in>set cols. \<exists>v. deannotate_expect env c = Inr v"
      by (simp add: deannotate_expect_Inr) blast
    then obtain cs where c: "expect_all (deannotate_expect env) cols = Inr cs"
      using expect_all_succeeds by blast
    show ?thesis using init_leftover_message[OF ne o c] msg by simp
  qed
  have srt: "sorted (sort (filter (\<lambda>k. k \<notin> set known_options) (map fst kw)))"
    by simp
  have st: "set (sort (filter (\<lambda>k. k \<notin> set known_options) (map fst kw)))
           = {k \<in> set (map fst kw). k \<notin> set known_options}"
    by auto
  show ?thesis
  proof (intro conjI allI impI)
    show "\<exists>e. ColumnProperty_init env cols kw n = Inl e" by (rule fails)
  next
    fix e assume "expect_all (expect env) cols = Inl e"
    then show "ColumnProperty_init env cols kw n = Inl e" by (rule first)
  next
    fix orig e
    assume "expect_all (expect env) cols = Inr orig \<and> expect_all (deannotate_expect env) cols = Inl e"
    then show "ColumnProperty_init env cols kw n = Inl e" by (rule second)
  next
    assume "\<forall>c\<in>set cols. (\<exists>v. expect env c = Inr v)
                \<and> (\<exists>d v. orm_full_deannotate env c = Inr d \<and> expect env d = Inr v)"
    then show "ColumnProperty_init env cols kw n
                = Inl (TypeError (''ColumnProperty received unexpected keyword argument(s): ''
                    @ join '', '' (sort (filter (\<lambda>k. k \<notin> set known_options) (map fst kw)))))"
      by (rule typeerr)
  next
    show "sorted (sort (filter (\<lambda>k. k \<notin> set known_options) (map fst kw)))" by (rule srt)
  next
    show "set (sort (filter (\<lambda>k. k \<notin> set known_options) (map fst kw)))
           = {k \<in> set (map fst kw). k \<notin> set known_options}" by (rule st)
  qed
qed

theorem unexpected_keywords_rejected_witness:
  "ColumnProperty_init sample_env [Col ''id'' PyNone]
       [(''zeta'', PyInt 1), (''deferred'', PyBool True), (''alpha'', PyInt 2)] 0
     = Inl (TypeError ''ColumnProperty received unexpected keyword argument(s): alpha, zeta'')
   \<and> ColumnProperty_init sample_env [Table ''users''] [(''bogus'', PyInt 1)] 0
     = Inl (ArgumentError ''Column expression expected'')"
proof -
  have bad: "\<exists>k\<in>set (map fst [(''zeta'', PyInt 1), (''deferred'', PyBool True), (''alpha'', PyInt 2)]).
               k \<notin> set known_options"
    by (simp add: known_options_def)
  have bad': "\<exists>k\<in>set (map fst [(''bogus'', PyInt 1)]). k \<notin> set known_options"
    by (simp add: known_options_def)
  have srt: "sort [''zeta'', ''alpha''] = [''alpha'', ''zeta'']"
    by code_simp
  have ok: "\<forall>c\<in>set [Col ''id'' PyNone]. (\<exists>v. expect sample_env c = Inr v)
       \<and> (\<exists>d v. orm_full_deannotate sample_env c = Inr d \<and> expect sample_env d = Inr v)"
    by (simp add: sample_env_def)
  have refused: "expect_all (expect sample_env) [Table ''users'']
       = Inl (ArgumentError ''Column expression expected'')"
    by (simp add: sample_env_def)
  from unexpected_keywords_rejected[OF bad, of sample_env "[Col ''id'' PyNone]" 0] ok
  have "ColumnProperty_init sample_env [Col ''id'' PyNone]
          [(''zeta'', PyInt 1), (''deferred'', PyBool True), (''alpha'', PyInt 2)] 0
        = Inl (TypeError (''ColumnProperty received unexpected keyword argument(s): ''
            @ join '', '' (sort (filter (\<lambda>k. k \<notin> set known_options)
                (map fst [(''zeta'', PyInt 1), (''deferred'', PyBool True), (''alpha'', PyInt 2)])))))"
    by blast
  moreover have "''ColumnProperty received unexpected keyword argument(s): ''
            @ join '', '' (sort (filter (\<lambda>k. k \<notin> set known_options)
                (map fst [(''zeta'', PyInt 1), (''deferred'', PyBool True), (''alpha'', PyInt 2)])))
        = ''ColumnProperty received unexpected keyword argument(s): alpha, zeta''"
    by (simp add: known_options_def srt)
  ultimately have 1: "ColumnProperty_init sample_env [Col ''id'' PyNone]
       [(''zeta'', PyInt 1), (''deferred'', PyBool True), (''alpha'', PyInt 2)] 0
     = Inl (TypeError ''ColumnProperty received unexpected keyword argument(s): alpha, zeta'')"
    by (simp only:)
  from unexpected_keywords_rejected[OF bad', of sample_env "[Table ''users'']" 0] refused
  have 2: "ColumnProperty_init sample_env [Table ''users''] [(''bogus'', PyInt 1)] 0
     = Inl (ArgumentError ''Column expression expected'')"
    by blast
  from 1 2 show ?thesis by (rule conjI)
qed

theorem unexpected_keywords_counterexample:
  "expect_all (expect sample_env) [Lit 5] = Inr [Label (Lit 5)]
   \<and> ColumnProperty_init sample_env [Lit 5] [(''bogus'', PyInt 1)] 0 = Inl AttributeError"
proof -
  have first: "expect_all (expect sample_env) [Lit 5] = Inr [Label (Lit 5)]"
    by (simp add: sample_expect_env)
  have second: "expect_all (deannotate_expect sample_env) [Lit 5] = Inl AttributeError"
    by (simp add: sample_deannotate_expect)
  from first init_second_pass_error[OF first second] show ?thesis
    by (rule conjI)
qed


text \<open>
  Claim C5. When no \<open>doc\<close> option is supplied, the resulting \<open>doc\<close> is the documentation
  of the last column that carries one (the first found when the normalized columns are
  scanned in reverse), and none when no column carries documentation; a supplied \<open>doc\<close>
  option is used verbatim.
\<close>

theorem doc_verbatim_or_last_documented:
  assumes "ColumnProperty_init env cols kw n = Inr (p, n')"
  shows "(\<forall>d. map_of kw ''doc'' = Some d \<longrightarrow> doc p = d)
       \<and> (map_of kw ''doc'' = None \<longrightarrow>
            ((\<forall>c\<in>set (columns p). getattr_doc env c = PyNone) \<longrightarrow> doc p = PyNone)
          \<and> (\<forall>i<length (columns p).
                getattr_doc env (columns p ! i) \<noteq> PyNone
                \<and> (\<forall>j. i < j \<and> j < length (columns p) \<longrightarrow> getattr_doc env (columns p ! j) = PyNone)
                \<longrightarrow> doc p = getattr_doc env (columns p ! i)))"
proof -
  from assms obtain orig cs where p: "p = options_record env orig cs kw n"
    by (rule init_Inr)
  have cols: "columns p = cs" by (simp add: p options_record_def)
  have given: "doc p = d" if "map_of kw ''doc'' = Some d" for d
    using that by (simp add: p options_record_def kw_has_map_of kw_get_Some)
  have derived: "doc p = doc_scan (getattr_doc env) (rev cs)" if "map_of kw ''doc'' = None"
    using that by (simp add: p options_record_def kw_has_map_of)
  have none: "doc p = PyNone"
    if "map_of kw ''doc'' = None" "\<forall>c\<in>set (columns p). getattr_doc env c = PyNone"
    using that derived cols by (simp add: doc_scan_none)
  have last: "doc p = getattr_doc env (columns p ! i)"
    if "map_of kw ''doc'' = None" "i < length (columns p)"
      "getattr_doc env (columns p ! i) \<noteq> PyNone"
      "\<forall>j. i < j \<and> j < length (columns p) \<longrightarrow> getattr_doc env (columns p ! j) = PyNone" for i
    using that derived cols doc_scan_rev_last[of i cs "getattr_doc env"] by simp
  show ?thesis using given none last by blast
qed

theorem doc_verbatim_or_last_documented_witness:
  "ColumnProperty_init sample_env
       [Col ''id'' (PyStr ''key''), Col ''name'' (PyStr ''label''), Col ''age'' PyNone] [] 0
     = Inr (options_record sample_env
              [Col ''id'' (PyStr ''key''), Col ''name'' (PyStr ''label''), Col ''age'' PyNone]
              [Col ''id'' (PyStr ''key''), Col ''name'' (PyStr ''label''), Col ''age'' PyNone] [] 0, 1)
   \<and> doc (options_record sample_env
              [Col ''id'' (PyStr ''key''), Col ''name'' (PyStr ''label''), Col ''age'' PyNone]
              [Col ''id'' (PyStr ''key''), Col ''name'' (PyStr ''label''), Col ''age'' PyNone] [] 0)
       = PyStr ''label''"
proof -
  let ?cols = "[Col ''id'' (PyStr ''key''), Col ''name'' (PyStr ''label''), Col ''age'' PyNone]"
  let ?p = "options_record sample_env ?cols ?cols [] 0"
  have a: "ColumnProperty_init sample_env ?cols [] 0 = Inr (?p, 1)"
    by (simp add: sample_init leftover_Nil)
  have cols: "columns ?p = ?cols" by (simp add: options_record_def)
  have nodoc: "map_of ([] :: kwargs) ''doc'' = None" by simp
  have i: "(1::nat) < length (columns ?p)" by (simp add: cols)
  have d: "getattr_doc sample_env (columns ?p ! 1) \<noteq> PyNone"
    unfolding cols by (simp add: sample_env_def)
  have later: "\<forall>j. 1 < j \<and> j < length (columns ?p) \<longrightarrow> getattr_doc sample_env (columns ?p ! j) = PyNone"
  proof (intro allI impI)
    fix j assume "1 < j \<and> j < length (columns ?p)"
    then have "j = 2" by (simp add: cols)
    then show "getattr_doc sample_env (columns ?p ! j) = PyNone"
      unfolding cols by (simp add: sample_env_def)
  qed
  from doc_verbatim_or_last_documented[OF a] nodoc i d later
  have "doc ?p = getattr_doc sample_env (columns ?p ! 1)" by blast
  then have "doc ?p = PyStr ''label''" unfolding cols by (simp add: sample_env_def)
  with a show ?thesis by simp
qed


text \<open>
  Claim C6, as amended. The claim as stated (the original columns are the caller's own
  references) fails where coercion returns something other than its argument. What holds: both lists have the length of the
  input and follow its order with no deduplication; element \<open>i\<close> of the original columns
  is the coercion of input \<open>i\<close> (the caller's own value wherever coercion returns its
  argument), and element \<open>i\<close> of the columns is the coercion of the de-annotated input \<open>i\<close>.
\<close>

theorem columns_coerced_in_order:
  assumes "ColumnProperty_init env cols kw n = Inr (p, n')"
  shows "length (orig_columns p) = length cols \<and> length (columns p) = length cols
       \<and> (\<forall>i<length cols.
             expect env (cols ! i) = Inr (orig_columns p ! i)
           \<and> (\<exists>d. orm_full_deannotate env (cols ! i) = Inr d
                  \<and> expect env d = Inr (columns p ! i)))
       \<and> (\<forall>i<length cols. expect env (cols ! i) = Inr (cols ! i) \<longrightarrow> orig_columns p ! i = cols ! i)"
proof -
  from assms obtain orig cs where orig: "expect_all (expect env) cols = Inr orig"
    and cs: "expect_all (deannotate_expect env) cols = Inr cs"
    and p: "p = options_record env orig cs kw n"
    by (rule init_Inr)
  have sel: "orig_columns p = orig" "columns p = cs" by (simp_all add: p options_record_def)
  from expect_all_Inr[OF orig] expect_all_Inr[OF cs] show ?thesis
    unfolding sel by (auto simp: deannotate_expect_Inr)
qed

theorem columns_coerced_in_order_witness:
  "ColumnProperty_init sample_env
       [Annotated (Col ''id'' PyNone), Binary (Col ''a'' PyNone) (Col ''b'' PyNone)] [] 0
     = Inr (options_record sample_env
              [Annotated (Col ''id'' PyNone), Label (Binary (Col ''a'' PyNone) (Col ''b'' PyNone))]
              [Col ''id'' PyNone, Label (Binary (Col ''a'' PyNone) (Col ''b'' PyNone))] [] 0, 1)
   \<and> orig_columns (options_record sample_env
              [Annotated (Col ''id'' PyNone), Label (Binary (Col ''a'' PyNone) (Col ''b'' PyNone))]
              [Col ''id'' PyNone, Label (Binary (Col ''a'' PyNone) (Col ''b'' PyNone))] [] 0) ! 0
       = Annotated (Col ''id'' PyNone)
   \<and> length (columns (options_record sample_env
              [Annotated (Col ''id'' PyNone), Label (Binary (Col ''a'' PyNone) (Col ''b'' PyNone))]
              [Col ''id'' PyNone, Label (Binary (Col ''a'' PyNone) (Col ''b'' PyNone))] [] 0)) = 2"
proof -
  let ?cols = "[Annotated (Col ''id'' PyNone), Binary (Col ''a'' PyNone) (Col ''b'' PyNone)]"
  let ?p = "options_record sample_env
              [Annotated (Col ''id'' PyNone), Label (Binary (Col ''a'' PyNone) (Col ''b'' PyNone))]
              [Col ''id'' PyNone, Label (Binary (Col ''a'' PyNone) (Col ''b'' PyNone))] [] 0"
  have a: "ColumnProperty_init sample_env ?cols [] 0 = Inr (?p, 1)"
    by (simp add: sample_init leftover_Nil)
  have e: "expect sample_env (?cols ! 0) = Inr (?cols ! 0)"
    by (simp add: sample_env_def)
  from columns_coerced_in_order[OF a] e
  have "orig_columns ?p ! 0 = ?cols ! 0" and "length (columns ?p) = length ?cols"
    by simp_all
  then show ?thesis using a by simp
qed

theorem original_columns_counterexample:
  "ColumnProperty_init sample_env [Binary (Col ''a'' PyNone) (Col ''b'' PyNone)] [] 0
     = Inr (options_record sample_env
              [Label (Binary (Col ''a'' PyNone) (Col ''b'' PyNone))]
              [Label (Binary (Col ''a'' PyNone) (Col ''b'' PyNone))] [] 0, 1)
   \<and> orig_columns (options_record sample_env
              [Label (Binary (Col ''a'' PyNone) (Col ''b'' PyNone))]
              [Label (Binary (Col ''a'' PyNone) (Col ''b'' PyNone))] [] 0)
       \<noteq> [Binary (Col ''a'' PyNone) (Col ''b'' PyNone)]"
  by (simp add: sample_init leftover_Nil options_record_def)


text \<open>
  Claim C9, as amended. The claim as stated (every constructed property has a non-empty
  column list) fails: the constructor accepts an empty argument list. What holds: the column list has the length of the
  positional arguments, so it is non-empty exactly when at least one column was passed,
  and then the primary expression is its first element; with no column passed,
  \<open>expression\<close> raises \<open>IndexError\<close>.
\<close>

theorem columns_follow_arguments:
  assumes "ColumnProperty_init env cols kw n = Inr (p, n')"
  shows "length (columns p) = length cols \<and> (columns p \<noteq> [] \<longleftrightarrow> cols \<noteq> [])
       \<and> (cols \<noteq> [] \<longrightarrow> expression p = Inr (columns p ! 0))
       \<and> (cols = [] \<longrightarrow> expression p = Inl IndexError)"
proof -
  from assms obtain orig cs where cs: "expect_all (deannotate_expect env) cols = Inr cs"
    and p: "p = options_record env orig cs kw n"
    by (rule init_Inr)
  have cols: "columns p = cs" by (simp add: p options_record_def)
  have len: "length cs = length cols" using expect_all_Inr[OF cs] by simp
  then have ne: "cs \<noteq> [] \<longleftrightarrow> cols \<noteq> []" by auto
  show ?thesis using len ne cols
    by (auto simp: expression_def split: list.splits)
qed

theorem columns_follow_arguments_witness:
  "ColumnProperty_init sample_env [Col ''id'' PyNone, Col ''name'' PyNone] [] 0
     = Inr (options_record sample_env [Col ''id'' PyNone, Col ''name'' PyNone]
              [Col ''id'' PyNone, Col ''name'' PyNone] [] 0, 1)
   \<and> length (columns (options_record sample_env [Col ''id'' PyNone, Col ''name'' PyNone]
              [Col ''id'' PyNone, Col ''name'' PyNone] [] 0)) = 2
   \<and> expression (options_record sample_env [Col ''id'' PyNone, Col ''name'' PyNone]
              [Col ''id'' PyNone, Col ''name'' PyNone] [] 0) = Inr (Col ''id'' PyNone)"
proof -
  let ?cols = "[Col ''id'' PyNone, Col ''name'' PyNone]"
  let ?p = "options_record sample_env ?cols ?cols [] 0"
  have a: "ColumnProperty_init sample_env ?cols [] 0 = Inr (?p, 1)"
    by (simp add: sample_init leftover_Nil)
  have cols: "columns ?p = ?cols" by (simp add: options_record_def)
  from columns_follow_arguments[OF a]
  have "length (columns ?p) = length ?cols" and "expression ?p = Inr (columns ?p ! 0)"
    by simp_all
  then show ?thesis using a by (simp add: cols)
qed

theorem columns_nonempty_counterexample:
  "ColumnProperty_init sample_env [] [] 0 = Inr (options_record sample_env [] [] [] 0, 1)
   \<and> columns (options_record sample_env [] [] [] 0) = []
   \<and> expression (options_record sample_env [] [] [] 0) = Inl IndexError"
  by (simp add: sample_init leftover_Nil options_record_def expression_def)


text \<open>
  Claim C10. A construction with \<open>raiseload=True\<close> and no \<open>deferred\<close> option stores
  \<open>deferred = False\<close>: \<open>raiseload\<close> only appends its entry to \<open>strategy_key\<close> and never
  writes the \<open>deferred\<close> flag.
\<close>

theorem raiseload_leaves_deferred:
  assumes "map_of kw ''raiseload'' = Some (PyBool True)"
    and "map_of kw ''deferred'' = None"
    and "ColumnProperty_init env cols kw n = Inr (p, n')"
  shows "deferred p = PyBool False \<and> raiseload p = PyBool True
       \<and> strategy_key p = [(''deferred'', PyBool False), (''instrument'', instrument p),
                            (''raiseload'', PyBool True)]"
proof -
  from assms(3) obtain orig cs where p: "p = options_record env orig cs kw n"
    by (rule init_Inr)
  show ?thesis
    using assms(1,2) by (simp add: p options_record_def kw_get_Some kw_get_None)
qed

theorem raiseload_leaves_deferred_witness:
  "ColumnProperty_init sample_env [Col ''id'' PyNone] [(''raiseload'', PyBool True)] 0
     = Inr (options_record sample_env [Col ''id'' PyNone] [Col ''id'' PyNone]
              [(''raiseload'', PyBool True)] 0, 1)
   \<and> deferred (options_record sample_env [Col ''id'' PyNone] [Col ''id'' PyNone]
                 [(''raiseload'', PyBool True)] 0) = PyBool False
   \<and> strategy_key (options_record sample_env [Col ''id'' PyNone] [Col ''id'' PyNone]
                 [(''raiseload'', PyBool True)] 0)
       = [(''deferred'', PyBool False), (''instrument'', PyBool True), (''raiseload'', PyBool True)]"
proof -
  let ?kw = "[(''raiseload'', PyBool True)]"
  let ?p = "options_record sample_env [Col ''id'' PyNone] [Col ''id'' PyNone] ?kw 0"
  have a: "ColumnProperty_init sample_env [Col ''id'' PyNone] ?kw 0 = Inr (?p, 1)"
    by (simp add: sample_init leftover_def known_options_def)
  have r: "map_of ?kw ''raiseload'' = Some (PyBool True)" by simp
  have d: "map_of ?kw ''deferred'' = None" by simp
  have i: "instrument ?p = PyBool True" by (simp add: options_record_def kw_get_def)
  from raiseload_leaves_deferred[OF r d a] i a show ?thesis by simp
qed


section \<open>Claims about merge, copy, do_init and the comparator\<close>

text \<open>
  Claim C1. With \<open>instrument\<close> true: if the key is in the source dict and \<open>load\<close> is
  false, the value is written straight into the destination dict and no \<open>set\<close> is called;
  if the key is present and \<open>load\<close> is true, the destination's attribute implementation's
  \<open>set\<close> is called with that value; if the key is absent from the source, the destination
  has an identity and the key is absent from the destination dict, the destination's
  expire operation is called for exactly that key with the no-loader flag and \<open>merge\<close>
  writes no value itself. With \<open>instrument\<close> false, \<open>merge\<close> changes nothing.
\<close>

theorem merge_three_way:
  "(\<not> truthy (instrument (column_property self)) \<longrightarrow> merge sys self src d load = d)
   \<and> (truthy (instrument (column_property self)) \<and> src (key self) = Some v \<and> \<not> load \<longrightarrow>
        merge sys self src d load = d\<lparr>dest_dict := (dest_dict d)(key self \<mapsto> v)\<rparr>
        \<and> calls (merge sys self src d load) = calls d)
   \<and> (truthy (instrument (column_property self)) \<and> src (key self) = Some v \<and> load \<longrightarrow>
        calls (merge sys self src d load) = calls d @ [Impl_set (key self) v]
        \<and> dest_dict (merge sys self src d load) = impl_set sys (key self) (dest_dict d) v)
   \<and> (truthy (instrument (column_property self)) \<and> src (key self) = None
        \<and> has_identity d \<and> dest_dict d (key self) = None \<longrightarrow>
        calls (merge sys self src d load) = calls d @ [Expire_attributes [key self] True]
        \<and> dest_dict (merge sys self src d load)
            = expire_attributes sys (dest_dict d) [key self] True)
   \<and> (truthy (instrument (column_property self)) \<and> src (key self) = None
        \<and> \<not> (has_identity d \<and> dest_dict d (key self) = None) \<longrightarrow>
        merge sys self src d load = d)"
  by (simp add: merge_def)

theorem merge_three_way_witness:
  "merge sample_attribute_system (sample_mapped [Col ''x'' PyNone] [])
      [''x'' \<mapsto> 5] \<lparr>dest_dict = Map.empty, has_identity = True, calls = []\<rparr> False
     = \<lparr>dest_dict = [''x'' \<mapsto> 5], has_identity = True, calls = []\<rparr>
   \<and> calls (merge sample_attribute_system (sample_mapped [Col ''x'' PyNone] [])
      [''x'' \<mapsto> 5] \<lparr>dest_dict = Map.empty, has_identity = True, calls = []\<rparr> True)
     = [Impl_set ''x'' 5]
   \<and> calls (merge sample_attribute_system (sample_mapped [Col ''x'' PyNone] [])
      Map.empty \<lparr>dest_dict = Map.empty, has_identity = True, calls = []\<rparr> True)
     = [Expire_attributes [''x''] True]
   \<and> dest_dict (merge sample_attribute_system (sample_mapped [Col ''x'' PyNone] [])
      Map.empty \<lparr>dest_dict = Map.empty, has_identity = True, calls = []\<rparr> True) ''x''
     = None
   \<and> merge sample_attribute_system (sample_mapped [Col ''x'' PyNone] [(''_instrument'', PyBool False)])
      [''x'' \<mapsto> 5] \<lparr>dest_dict = Map.empty, has_identity = True, calls = []\<rparr> False
     = \<lparr>dest_dict = Map.empty, has_identity = True, calls = []\<rparr>"
proof -
  let ?S = sample_attribute_system
  let ?P = "sample_mapped [Col ''x'' PyNone] []"
  let ?Q = "sample_mapped [Col ''x'' PyNone] [(''_instrument'', PyBool False)]"
  let ?D = "\<lparr>dest_dict = Map.empty, has_identity = True, calls = []\<rparr> :: int dest"
  let ?src = "[''x'' \<mapsto> 5::int]"
  have on: "truthy (instrument (column_property ?P))"
    by (simp add: sample_mapped_simps kw_get_def)
  have off: "\<not> truthy (instrument (column_property ?Q))"
    by (simp add: sample_mapped_simps kw_get_def)
  have k: "key ?P = ''x''" by (simp add: sample_mapped_simps)
  have has: "?src (key ?P) = Some 5" by (simp add: k)
  have hasnt: "(Map.empty :: string \<rightharpoonup> int) (key ?P) = None" by simp
  have idn: "has_identity ?D \<and> dest_dict ?D (key ?P) = None" by simp
  from merge_three_way[of ?P ?S ?src ?D False 5] on has
  have 1: "merge ?S ?P ?src ?D False = ?D\<lparr>dest_dict := (dest_dict ?D)(key ?P \<mapsto> 5)\<rparr>"
    by blast
  from merge_three_way[of ?P ?S ?src ?D True 5] on has
  have 2: "calls (merge ?S ?P ?src ?D True) = calls ?D @ [Impl_set (key ?P) 5]"
    by blast
  from merge_three_way[of ?P ?S Map.empty ?D True 5] on hasnt idn
  have 3: "calls (merge ?S ?P Map.empty ?D True) = calls ?D @ [Expire_attributes [key ?P] True]"
    and 4: "dest_dict (merge ?S ?P Map.empty ?D True)
            = expire_attributes ?S (dest_dict ?D) [key ?P] True"
    by blast+
  from merge_three_way[of ?Q ?S ?src ?D False 5] off
  have 5: "merge ?S ?Q ?src ?D False = ?D"
    by blast
  show ?thesis
    unfolding 1 2 3 4 5 k by (simp add: sample_attribute_system_def)
qed


text \<open>
  Claim C2, as amended. The claim as stated (\<open>copy\<close> resets every option but the columns,
  \<open>group\<close> and \<open>active_history\<close>, so that the copy's \<open>deferred\<close> is \<open>False\<close> even when the
  original's is \<open>True\<close>) fails: \<open>copy\<close> passes \<open>deferred\<close> on. What holds: a copy is a newly
  constructed property with its own creation order; it keeps \<open>deferred\<close>, \<open>group\<close> and
  \<open>active_history\<close>; \<open>raiseload\<close>, \<open>instrument\<close>, \<open>comparator_factory\<close>, \<open>descriptor\<close>,
  \<open>expire_on_flush\<close> and \<open>info\<close> are back at their defaults and \<open>doc\<close> is derived from the
  columns; its columns are the original's columns normalized again, in the same order,
  and are the original's columns whenever coercion and de-annotation return them
  unchanged, in which case the copy always succeeds.
\<close>

theorem copy_keeps_three_options:
  "(\<forall>q n'. copy env p n = Inr (q, n') \<longrightarrow>
      deferred q = deferred p \<and> group_name q = group_name p
      \<and> active_history q = active_history p
      \<and> raiseload q = PyBool False \<and> instrument q = PyBool True
      \<and> comparator_factory q = Comparator_class \<and> descriptor q = PyNone
      \<and> expire_on_flush q = PyBool True \<and> info q = None
      \<and> doc q = doc_scan (getattr_doc env) (rev (columns q))
      \<and> strategy_key q = [(''deferred'', deferred p), (''instrument'', PyBool True)]
      \<and> creation_order q = n \<and> n' = Suc n
      \<and> length (columns q) = length (columns p)
      \<and> (\<forall>i<length (columns p).
            (\<exists>d. orm_full_deannotate env (columns p ! i) = Inr d
                 \<and> expect env d = Inr (columns q ! i))))
   \<and> ((\<forall>c\<in>set (columns p). expect env c = Inr c \<and> orm_full_deannotate env c = Inr c) \<longrightarrow>
        (\<exists>q. copy env p n = Inr (q, Suc n) \<and> columns q = columns p \<and> orig_columns q = columns p))"
proof -
  let ?kw = "[(''deferred'', deferred p), (''group'', group_name p),
              (''active_history'', active_history p)]"
  have fields: "deferred q = deferred p \<and> group_name q = group_name p
      \<and> active_history q = active_history p
      \<and> raiseload q = PyBool False \<and> instrument q = PyBool True
      \<and> comparator_factory q = Comparator_class \<and> descriptor q = PyNone
      \<and> expire_on_flush q = PyBool True \<and> info q = None
      \<and> doc q = doc_scan (getattr_doc env) (rev (columns q))
      \<and> strategy_key q = [(''deferred'', deferred p), (''instrument'', PyBool True)]
      \<and> creation_order q = n \<and> n' = Suc n
      \<and> length (columns q) = length (columns p)
      \<and> (\<forall>i<length (columns p).
            (\<exists>d. orm_full_deannotate env (columns p ! i) = Inr d
                 \<and> expect env d = Inr (columns q ! i)))"
    if "copy env p n = Inr (q, n')" for q n'
  proof -
    from that have "ColumnProperty_init env (columns p) ?kw n = Inr (q, n')"
      by (simp add: copy_def)
    then obtain orig cs
      where cs: "expect_all (deannotate_expect env) (columns p) = Inr cs"
        and q: "q = options_record env orig cs ?kw n" and n': "n' = Suc n"
      by (rule init_Inr)
    have q': "q = \<lparr> orig_columns = orig, columns = cs, group_name = group_name p,
         deferred = deferred p, raiseload = PyBool False, instrument = PyBool True,
         comparator_factory = Comparator_class, descriptor = PyNone,
         active_history = active_history p,
         expire_on_flush = PyBool True, info = None,
         doc = doc_scan (getattr_doc env) (rev cs),
         strategy_key = [(''deferred'', deferred p), (''instrument'', PyBool True)],
         creation_order = n \<rparr>"
      unfolding q by (rule copy_options)
    from expect_all_Inr[OF cs] have len: "length cs = length (columns p)"
      and nth: "\<forall>i<length (columns p).
            (\<exists>d. orm_full_deannotate env (columns p ! i) = Inr d
                 \<and> expect env d = Inr (cs ! i))"
      by (simp_all add: deannotate_expect_Inr)
    show ?thesis using len nth n' by (simp add: q')
  qed
  have total: "\<exists>q. copy env p n = Inr (q, Suc n) \<and> columns q = columns p \<and> orig_columns q = columns p"
    if idem: "\<forall>c\<in>set (columns p). expect env c = Inr c \<and> orm_full_deannotate env c = Inr c"
  proof -
    have o: "expect_all (expect env) (columns p) = Inr (map (\<lambda>c. c) (columns p))"
      using idem by (intro expect_all_map) simp
    have c: "expect_all (deannotate_expect env) (columns p)
              = Inr (map (\<lambda>c. c) (columns p))"
      using idem by (intro expect_all_map) (simp add: deannotate_expect_def)
    have "copy env p n = Inr (options_record env (columns p) (columns p) ?kw n, Suc n)"
      using o c by (simp add: copy_def init_unfold leftover_copy_kwargs)
    then show ?thesis by (simp add: copy_options)
  qed
  show ?thesis using fields total by blast
qed

theorem copy_keeps_three_options_witness:
  "copy sample_env (options_record sample_env [Col ''id'' PyNone] [Col ''id'' PyNone]
        [(''deferred'', PyBool True), (''raiseload'', PyBool True)] 0) 1
     = Inr (options_record sample_env [Col ''id'' PyNone] [Col ''id'' PyNone]
        [(''deferred'', PyBool True), (''group'', PyNone), (''active_history'', PyBool False)] 1, 2)
   \<and> deferred (options_record sample_env [Col ''id'' PyNone] [Col ''id'' PyNone]
        [(''deferred'', PyBool True), (''group'', PyNone), (''active_history'', PyBool False)] 1)
       = PyBool True
   \<and> raiseload (options_record sample_env [Col ''id'' PyNone] [Col ''id'' PyNone]
        [(''deferred'', PyBool True), (''group'', PyNone), (''active_history'', PyBool False)] 1)
       = PyBool False"
proof -
  let ?p = "options_record sample_env [Col ''id'' PyNone] [Col ''id'' PyNone]
        [(''deferred'', PyBool True), (''raiseload'', PyBool True)] 0"
  let ?q = "options_record sample_env [Col ''id'' PyNone] [Col ''id'' PyNone]
        [(''deferred'', PyBool True), (''group'', PyNone), (''active_history'', PyBool False)] 1"
  have p: "columns ?p = [Col ''id'' PyNone]" "deferred ?p = PyBool True"
    "group_name ?p = PyNone" "active_history ?p = PyBool False"
    by (simp_all add: options_record_def kw_get_def)
  have c: "copy sample_env ?p 1 = Inr (?q, 2)"
    unfolding copy_def p by (simp add: sample_init leftover_copy_kwargs)
  from copy_keeps_three_options[of sample_env ?p 1] c
  have "deferred ?q = deferred ?p" and "raiseload ?q = PyBool False"
    by blast+
  with c p show ?thesis by simp
qed

theorem copy_resets_deferred_counterexample:
  "ColumnProperty_init sample_env [Col ''id'' PyNone] [(''deferred'', PyBool True)] 0
     = Inr (options_record sample_env [Col ''id'' PyNone] [Col ''id'' PyNone]
              [(''deferred'', PyBool True)] 0, 1)
   \<and> copy sample_env (options_record sample_env [Col ''id'' PyNone] [Col ''id'' PyNone]
              [(''deferred'', PyBool True)] 0) 1
     = Inr (options_record sample_env [Col ''id'' PyNone] [Col ''id'' PyNone]
        [(''deferred'', PyBool True), (''group'', PyNone), (''active_history'', PyBool False)] 1, 2)
   \<and> deferred (options_record sample_env [Col ''id'' PyNone] [Col ''id'' PyNone]
        [(''deferred'', PyBool True), (''group'', PyNone), (''active_history'', PyBool False)] 1)
       \<noteq> PyBool False"
proof -
  let ?p = "options_record sample_env [Col ''id'' PyNone] [Col ''id'' PyNone]
        [(''deferred'', PyBool True)] 0"
  have a: "ColumnProperty_init sample_env [Col ''id'' PyNone] [(''deferred'', PyBool True)] 0
     = Inr (?p, 1)"
    by (simp add: sample_init leftover_def known_options_def)
  have p: "columns ?p = [Col ''id'' PyNone]" "deferred ?p = PyBool True"
    "group_name ?p = PyNone" "active_history ?p = PyBool False"
    by (simp_all add: options_record_def kw_get_def)
  have c: "copy sample_env ?p 1 = Inr (options_record sample_env [Col ''id'' PyNone] [Col ''id'' PyNone]
        [(''deferred'', PyBool True), (''group'', PyNone), (''active_history'', PyBool False)] 1, 2)"
    unfolding copy_def p by (simp add: sample_init leftover_copy_kwargs)
  show ?thesis using a c by (simp add: copy_options)
qed


text \<open>
  Claim C7. \<open>do_init\<close> emits a warning if and only if the property has more than one
  column and all of its columns are among the parent mapper's primary-key columns; it
  raises no error and returns the property as the inherited step left it, with at most
  that one warning added to the log.
\<close>

theorem do_init_warns_iff:
  "fst (do_init inh cstr self ws) = inh self
   \<and> ((\<exists>m. snd (do_init inh cstr self ws) = ws @ [m]) \<longleftrightarrow>
         length (columns (column_property (inh self))) > 1
         \<and> set (columns (column_property (inh self))) \<subseteq> set (primary_key (parent (inh self))))
   \<and> (\<not> (length (columns (column_property (inh self))) > 1
           \<and> set (columns (column_property (inh self))) \<subseteq> set (primary_key (parent (inh self))))
        \<longrightarrow> snd (do_init inh cstr self ws) = ws)
   \<and> (column_property (inh self) = column_property self \<and> parent (inh self) = parent self \<longrightarrow>
        column_property (fst (do_init inh cstr self ws)) = column_property self
        \<and> ((\<exists>m. snd (do_init inh cstr self ws) = ws @ [m]) \<longleftrightarrow>
              length (columns (column_property self)) > 1
              \<and> set (columns (column_property self)) \<subseteq> set (primary_key (parent self))))"
proof -
  let ?c = "length (columns (column_property (inh self))) > 1
         \<and> set (columns (column_property (inh self))) \<subseteq> set (primary_key (parent (inh self)))"
  have f: "fst (do_init inh cstr self ws) = inh self"
    by (simp add: do_init_def Let_def)
  have yes: "\<exists>m. snd (do_init inh cstr self ws) = ws @ [m]" if ?c
    using that by (simp add: do_init_def Let_def list_all_iff subset_iff)
  have no: "snd (do_init inh cstr self ws) = ws" if "\<not> ?c"
    using that by (auto simp add: do_init_def Let_def list_all_iff subset_iff)
  have iff: "(\<exists>m. snd (do_init inh cstr self ws) = ws @ [m]) \<longleftrightarrow> ?c"
    using yes no by (cases ?c) auto
  show ?thesis using f iff no by auto
qed

theorem do_init_warns_iff_witness:
  "do_init sample_super_do_init sample_col_str
       (sample_mapped [Col ''id'' PyNone, Col ''version'' PyNone] []) []
     = (sample_mapped [Col ''id'' PyNone, Col ''version'' PyNone] [],
        [pk_warning ''mapped class User->users'' ''version'' ''id'' ''x''])
   \<and> do_init sample_super_do_init sample_col_str
       (sample_mapped [Col ''id'' PyNone] []) []
     = (sample_mapped [Col ''id'' PyNone] [], [])
   \<and> do_init sample_super_do_init sample_col_str
       (sample_mapped [Col ''id'' PyNone, Col ''name'' PyNone] []) []
     = (sample_mapped [Col ''id'' PyNone, Col ''name'' PyNone] [], [])"
proof -
  let ?A = "sample_mapped [Col ''id'' PyNone, Col ''version'' PyNone] []"
  let ?B = "sample_mapped [Col ''id'' PyNone] []"
  let ?C = "sample_mapped [Col ''id'' PyNone, Col ''name'' PyNone] []"
  have a: "do_init sample_super_do_init sample_col_str ?A []
     = (?A, [pk_warning ''mapped class User->users'' ''version'' ''id'' ''x''])"
    by (simp add: do_init_def Let_def sample_super_do_init_def sample_mapped_simps
        sample_mapper_def)
  have cB: "\<not> (length (columns (column_property (sample_super_do_init ?B))) > 1
       \<and> set (columns (column_property (sample_super_do_init ?B)))
           \<subseteq> set (primary_key (parent (sample_super_do_init ?B))))"
    by (simp add: sample_super_do_init_def sample_mapped_simps)
  have cC: "\<not> (length (columns (column_property (sample_super_do_init ?C))) > 1
       \<and> set (columns (column_property (sample_super_do_init ?C)))
           \<subseteq> set (primary_key (parent (sample_super_do_init ?C))))"
    by (simp add: sample_super_do_init_def sample_mapped_simps sample_mapper_def)
  from do_init_warns_iff[of sample_super_do_init sample_col_str ?B "[]"] cB
  have b: "fst (do_init sample_super_do_init sample_col_str ?B []) = sample_super_do_init ?B"
    "snd (do_init sample_super_do_init sample_col_str ?B []) = []"
    by blast+
  from do_init_warns_iff[of sample_super_do_init sample_col_str ?C "[]"] cC
  have c: "fst (do_init sample_super_do_init sample_col_str ?C []) = sample_super_do_init ?C"
    "snd (do_init sample_super_do_init sample_col_str ?C []) = []"
    by blast+
  have b': "do_init sample_super_do_init sample_col_str ?B [] = (?B, [])"
    using b by (simp add: prod_eq_iff sample_super_do_init_def)
  have c': "do_init sample_super_do_init sample_col_str ?C [] = (?C, [])"
    using c by (simp add: prod_eq_iff sample_super_do_init_def)
  show ?thesis using a b' c' by simp
qed


text \<open>
  Claim C8. For a comparator whose memoized slots are empty or hold what their bodies
  compute: with an adapter bound, the clause element is exactly
  \<open>adapter(columns[0], key)\<close>, with no annotation involved; with no adapter bound,
  \<open>expressions\<close> is the list of the property's columns, each annotated, in the same order.
\<close>

theorem comparator_adapter_or_annotation:
  assumes "slots_ok api self"
  shows "(\<forall>f col0 rest. adapter self = Some f \<and> columns (column_property (cprop self)) = col0 # rest
            \<longrightarrow> (\<exists>self'. clause_element api self = Inr (f col0 (key (cprop self)), self')
                         \<and> slots_ok api self'))
       \<and> (adapter self = None \<longrightarrow>
            fst (expressions api self)
              = map (orm_annotate_column api self) (columns (column_property (cprop self)))
            \<and> length (fst (expressions api self)) = length (columns (column_property (cprop self)))
            \<and> (\<forall>i<length (columns (column_property (cprop self))).
                  fst (expressions api self) ! i
                    = orm_annotate_column api self (columns (column_property (cprop self)) ! i))
            \<and> slots_ok api (snd (expressions api self)))"
proof -
  have ce: "\<exists>self'. clause_element api self = Inr (f col0 (key (cprop self)), self') \<and> slots_ok api self'"
    if "adapter self = Some f" "columns (column_property (cprop self)) = col0 # rest" for f col0 rest
  proof -
    have "compute_clause_element api self = Inr (f col0 (key (cprop self)))"
      using that by (simp add: compute_clause_element_def)
    from clause_element_value[OF assms this] show ?thesis by blast
  qed
  have ex: "fst (expressions api self)
              = map (orm_annotate_column api self) (columns (column_property (cprop self)))"
    if "adapter self = None"
    using that expressions_value[OF assms] by (simp add: compute_expressions_def)
  have ok: "slots_ok api (snd (expressions api self))"
    using expressions_value[OF assms] by simp
  show ?thesis
    using ce ex ok by (auto simp del: map_eq_conv)
qed

theorem comparator_adapter_or_annotation_witness:
  "map_sum id fst (clause_element sample_api
       (new_Comparator (sample_mapped [Col ''id'' PyNone, Col ''name'' PyNone] []) ''User''
          sample_mapper (Some sample_adapter)))
     = Inr (Label (Col ''id'' PyNone))
   \<and> fst (expressions sample_api
       (new_Comparator (sample_mapped [Col ''id'' PyNone, Col ''name'' PyNone] []) ''User''
          sample_mapper None))
     = [Annotated (Col ''id'' PyNone), Annotated (Col ''name'' PyNone)]"
proof -
  let ?m = "sample_mapped [Col ''id'' PyNone, Col ''name'' PyNone] []"
  let ?A = "new_Comparator ?m ''User'' sample_mapper (Some sample_adapter)"
  let ?B = "new_Comparator ?m ''User'' sample_mapper None"
  have okA: "slots_ok sample_api ?A" and okB: "slots_ok sample_api ?B"
    by (rule slots_ok_new)+
  have adA: "adapter ?A = Some sample_adapter" and adB: "adapter ?B = None"
    by (simp_all add: new_Comparator_def)
  have colsA: "columns (column_property (cprop ?A)) = Col ''id'' PyNone # [Col ''name'' PyNone]"
    by (simp add: new_Comparator_def sample_mapped_simps)
  have colsB: "columns (column_property (cprop ?B)) = [Col ''id'' PyNone, Col ''name'' PyNone]"
    by (simp add: new_Comparator_def sample_mapped_simps)
  from comparator_adapter_or_annotation[OF okA] adA colsA
  obtain self' where "clause_element sample_api ?A
      = Inr (sample_adapter (Col ''id'' PyNone) (key (cprop ?A)), self')"
    by blast
  then have 1: "map_sum id fst (clause_element sample_api ?A) = Inr (Label (Col ''id'' PyNone))"
    by (simp add: sample_adapter_def)
  from comparator_adapter_or_annotation[OF okB] adB
  have "fst (expressions sample_api ?B)
      = map (orm_annotate_column sample_api ?B) (columns (column_property (cprop ?B)))"
    by blast
  then have 2: "fst (expressions sample_api ?B)
      = [Annotated (Col ''id'' PyNone), Annotated (Col ''name'' PyNone)]"
    unfolding colsB
    by (simp add: orm_annotate_column_def new_Comparator_def sample_mapper_def sample_api_def)
  from 1 2 show ?thesis by simp
qed


end
